theory Spec2Isabelle
  imports Main "HOL-Library.Multiset"
begin

section \<open>Data model\<close>

text \<open>
  Python objects are shared by reference. A \<open>Track\<close> handed to \<open>play\<close> is mutated
  (\<open>track.requester = requester\<close>) and the same object may sit in several queues, so
  Track objects live in a store and every queue holds references into it. A \<open>Node\<close> is
  created only by \<open>create_new_node\<close>, one fresh object per registry key, so the registry
  holds the Node values themselves and an in-place mutation of a Node is written as an
  update of its registry entry.
\<close>

type_synonym ref = nat

text \<open>
  Modelled from the spec: class \<open>Track\<close> of \<open>objects.py\<close>. Only the two attributes the
  client and the protocol handler touch are kept: the encoded handle \<open>track\<close> and the
  optional \<open>requester\<close>, attached at queue-insertion time.
\<close>

record Track =
  track :: string
  requester :: "int option"

text \<open>
  Modelled from the spec: class \<open>Node\<close> of \<open>objects.py\<close>, built in \<open>create_new_node\<close> as
  \<open>Node(guild_id, [], 100, is_connected=is_connected)\<close>, with \<open>repeat\<close> unset. A Node
  object is truthy, so \<open>if not node\<close> tests for \<open>None\<close> only.
\<close>

record Node =
  guild_id :: int
  queue :: "ref list"
  volume :: int
  is_connected :: bool
  repeat :: bool

record Info =
  playingPlayers :: int
  memory_used :: int
  memory_free :: int
  players :: int
  uptime :: int

text \<open>Outbound frames, one constructor per \<open>op\<close>. \<open>guildId\<close> is \<open>str(guild_id)\<close> on the
  wire; the frame keeps the integer.\<close>

datatype frame =
    VoiceUpdateFrame int string string string
  | PlayFrame int string
  | StopFrame int
  | PauseFrame int bool
  | SeekFrame int int
  | VolumeFrame int int
  | DestroyFrame int
  | FiltersFrame int "(string \<times> string) list"

text \<open>Events handed to the emitter. The Track objects they carry are references.\<close>

datatype event =
    PlayerUpdate string int "int option" bool
  | TrackStartEvent ref int
  | TrackEndEvent ref int string
  | TrackExceptionEvent ref int string string string string
  | TrackStuckEvent ref int int
  | WebSocketClosedEvent ref int int string bool

datatype error =
    NodeError int
  | VolumeError int
  | AttributeError
  | KeyError int

text \<open>What a coroutine returns: \<open>None\<close>, a list (the \<open>[]\<close> of \<open>shuffle\<close>) or a Node.\<close>

datatype retval = RNone | RList "ref list" | RNode Node

text \<open>
  The client: the registry \<open>_nodes\<close>, the store of Track objects with its allocation
  counter, the \<open>info\<close> snapshot, the log of frames handed to \<open>WS.send\<close> and the log of
  events handed to \<open>Emitter.emit\<close>. The socket and the emitter are collaborators outside
  \<open>src\<close>: a send or an emit is recorded, its transport is not modelled.
\<close>

record client =
  nodes :: "int \<rightharpoonup> Node"
  store :: "ref \<Rightarrow> Track"
  next_ref :: ref
  info :: "Info option"
  sent :: "frame list"
  emitted :: "event list"

type_synonym 'a outcome = "(error + 'a) \<times> client"

section \<open>The websocket side: \<open>WS.send\<close>\<close>

definition send :: "frame \<Rightarrow> client \<Rightarrow> client" where
  "send f s = s\<lparr>sent := sent s @ [f]\<rparr>"

definition emit :: "event \<Rightarrow> client \<Rightarrow> client" where
  "emit e s = s\<lparr>emitted := emitted s @ [e]\<rparr>"

section \<open>The registry\<close>

definition get_guild_node :: "int \<Rightarrow> client \<Rightarrow> Node option" where
  "get_guild_node g s = nodes s g"

text \<open>\<open>remove_guild_node\<close> pops the key \<open>node.guild_id\<close>, not its argument: \<open>None.guild_id\<close>
  raises \<open>AttributeError\<close>, a key that is gone raises \<open>KeyError\<close>.\<close>

definition remove_guild_node :: "int \<Rightarrow> client \<Rightarrow> unit outcome" where
  "remove_guild_node g s =
     (case get_guild_node g s of
        None \<Rightarrow> (Inl AttributeError, s)
      | Some node \<Rightarrow>
          (case nodes s (guild_id node) of
             None \<Rightarrow> (Inl (KeyError (guild_id node)), s)
           | Some _ \<Rightarrow> (Inr (), s\<lparr>nodes := (nodes s)(guild_id node := None)\<rparr>)))"

definition set_guild_node :: "int \<Rightarrow> Node \<Rightarrow> client \<Rightarrow> client" where
  "set_guild_node g node s = s\<lparr>nodes := (nodes s)(g \<mapsto> node)\<rparr>"

definition create_new_node :: "int \<Rightarrow> bool \<Rightarrow> client \<Rightarrow> Node \<times> client" where
  "create_new_node g is_conn s =
     (let node = \<lparr>guild_id = g, queue = [], volume = 100, is_connected = is_conn,
                  repeat = False\<rparr>
      in (node, s\<lparr>nodes := (nodes s)(g \<mapsto> node)\<rparr>))"

section \<open>Python helpers\<close>

text \<open>\<open>str.replace(old, new)\<close>: every non-overlapping occurrence, leftmost first; an
  empty \<open>old\<close> matches before each character and at the end.\<close>

function str_replace :: "string \<Rightarrow> string \<Rightarrow> string \<Rightarrow> string" where
  "str_replace old new s =
     (if old = [] then new @ concat (map (\<lambda>c. c # new) s)
      else if s = [] then []
      else if take (length old) s = old
        then new @ str_replace old new (drop (length old) s)
      else hd s # str_replace old new (tl s))"
  by pat_completeness auto
termination
  by (relation "measure (\<lambda>(old, new, s). length s)") auto

text \<open>
  \<open>random.sample(population, k)\<close>, the pool algorithm of CPython (the one taken whenever
  \<open>k = len(population)\<close>): \<open>k\<close> rounds, each picks index \<open>j = randbelow(n - i)\<close>, yields
  \<open>pool[j]\<close> and moves the last live element into slot \<open>j\<close>. The generator's draws are
  the list \<open>ds\<close>; a draw is reduced modulo the live length, a missing draw counts as 0.
\<close>

fun sample_loop :: "nat \<Rightarrow> nat list \<Rightarrow> 'a list \<Rightarrow> 'a list" where
  "sample_loop 0 ds pool = []"
| "sample_loop (Suc k) ds pool =
     (if pool = [] then []
      else let j = (case ds of [] \<Rightarrow> 0 | d # _ \<Rightarrow> d mod length pool)
           in pool ! j # sample_loop k (tl ds) (butlast (pool[j := last pool])))"

definition random_sample :: "nat list \<Rightarrow> 'a list \<Rightarrow> 'a list" where
  "random_sample ds population = sample_loop (length population) ds population"

section \<open>The command API of \<open>LavalinkClient\<close>\<close>

definition destroy :: "int \<Rightarrow> client \<Rightarrow> retval outcome" where
  "destroy g s =
     (case get_guild_node g s of
        None \<Rightarrow> (Inl (NodeError g), s)
      | Some node \<Rightarrow>
          (case remove_guild_node g s of
             (Inl e, s1) \<Rightarrow> (Inl e, s1)
           | (Inr _, s1) \<Rightarrow> (Inr RNone, send (DestroyFrame g) s1)))"

text \<open>\<open>if not channel_id\<close> holds for \<open>None\<close> and for \<open>0\<close>.\<close>

definition voice_update ::
  "int \<Rightarrow> string \<Rightarrow> string \<Rightarrow> string \<Rightarrow> int option \<Rightarrow> client \<Rightarrow> retval outcome" where
  "voice_update g session_id token endpoint channel_id s =
     (if channel_id = None \<or> channel_id = Some 0 then destroy g s
      else
        let s1 = send (VoiceUpdateFrame g session_id token
                         (str_replace ''wss://'' '''' endpoint)) s
        in (Inr RNone, snd (create_new_node g True s1)))"

text \<open>\<open>repeat\<close>: no guard on the lookup, \<open>node.repeat = stats\<close> on \<open>None\<close> raises
  \<open>AttributeError\<close>.\<close>

definition repeat_op :: "int \<Rightarrow> bool \<Rightarrow> client \<Rightarrow> retval outcome" where
  "repeat_op g stats s =
     (case get_guild_node g s of
        None \<Rightarrow> (Inl AttributeError, s)
      | Some node \<Rightarrow> (Inr RNone, set_guild_node g (node\<lparr>repeat := stats\<rparr>) s))"

text \<open>\<open>play\<close>: the payload reads \<open>track.track\<close> first; without \<open>start\<close> the requester is
  written into the Track object, the reference is appended to the queue and the node is
  stored back.\<close>

definition play :: "int \<Rightarrow> ref \<Rightarrow> int option \<Rightarrow> bool \<Rightarrow> client \<Rightarrow> retval outcome" where
  "play g t req start s =
     (case get_guild_node g s of
        None \<Rightarrow> (Inl (NodeError g), s)
      | Some node \<Rightarrow>
          let payload = PlayFrame g (track (store s t)) in
          if start then (Inr RNone, send payload s)
          else
            let s1 = s\<lparr>store := (store s)(t := (store s t)\<lparr>requester := req\<rparr>)\<rparr>;
                node1 = node\<lparr>queue := queue node @ [t]\<rparr>;
                s2 = set_guild_node g node1 s1
            in if length (queue node1) \<noteq> 1 then (Inr RNone, s2)
               else (Inr RNone, send payload s2))"

definition filters :: "int \<Rightarrow> (string \<times> string) list \<Rightarrow> client \<Rightarrow> retval outcome" where
  "filters g payload s =
     (case get_guild_node g s of
        None \<Rightarrow> (Inl (NodeError g), s)
      | Some node \<Rightarrow> (Inr RNone, send (FiltersFrame g payload) s))"

text \<open>\<open>stop\<close>: no guard on the lookup, \<open>len(node.queue)\<close> on \<open>None\<close> raises
  \<open>AttributeError\<close>; an empty queue raises \<open>NodeError\<close>.\<close>

definition stop :: "int \<Rightarrow> client \<Rightarrow> retval outcome" where
  "stop g s =
     (case get_guild_node g s of
        None \<Rightarrow> (Inl AttributeError, s)
      | Some node \<Rightarrow>
          if length (queue node) = 0 then (Inl (NodeError g), s)
          else
            let node1 = node\<lparr>queue := []\<rparr>;
                s1 = set_guild_node g node1 s
            in (Inr (RNode node1), send (StopFrame g) s1))"

definition skip :: "int \<Rightarrow> client \<Rightarrow> retval outcome" where
  "skip g s =
     (case get_guild_node g s of
        None \<Rightarrow> (Inl (NodeError g), s)
      | Some node \<Rightarrow>
          if length (queue node) = 0 then (Inr RNone, s)
          else (Inr (RNode node), send (StopFrame g) s))"

definition pause :: "int \<Rightarrow> bool \<Rightarrow> client \<Rightarrow> retval outcome" where
  "pause g stats s =
     (case get_guild_node g s of
        None \<Rightarrow> (Inl (NodeError g), s)
      | Some node \<Rightarrow> (Inr RNone, send (PauseFrame g stats) s))"

definition seek :: "int \<Rightarrow> int \<Rightarrow> client \<Rightarrow> retval outcome" where
  "seek g position s =
     (case get_guild_node g s of
        None \<Rightarrow> (Inl (NodeError g), s)
      | Some node \<Rightarrow> (Inr RNone, send (SeekFrame g position) s))"

definition volume_op :: "int \<Rightarrow> int \<Rightarrow> client \<Rightarrow> retval outcome" where
  "volume_op g v s =
     (if v < 0 \<or> v > 1000 then (Inl (VolumeError g), s)
      else
        case get_guild_node g s of
          None \<Rightarrow> (Inl (NodeError g), s)
        | Some node \<Rightarrow>
            let s1 = set_guild_node g (node\<lparr>volume := v\<rparr>) s
            in (Inr RNone, send (VolumeFrame g v) s1))"

text \<open>\<open>shuffle\<close>: \<open>list.remove(np)\<close> deletes the first element equal to the head, the
  rest is resampled with the generator's draws \<open>ds\<close>, the head is put back in front.\<close>

definition shuffle :: "nat list \<Rightarrow> int \<Rightarrow> client \<Rightarrow> retval outcome" where
  "shuffle ds g s =
     (case get_guild_node g s of
        None \<Rightarrow> (Inl (NodeError g), s)
      | Some node \<Rightarrow>
          if queue node = [] then (Inr (RList []), s)
          else
            let np = queue node ! 0;
                rest = remove1 np (queue node);
                node1 = node\<lparr>queue := np # random_sample ds rest\<rparr>
            in (Inr (RNode node1), set_guild_node g node1 s))"

section \<open>The protocol handler: \<open>WS.callback\<close>\<close>

text \<open>
  Modelled from the spec: \<open>_decodetrack\<close> asks the metadata collaborator (\<open>api.py\<close>, not
  under \<open>src\<close>) and builds \<open>Track(track, **result)\<close>: a new object whose handle is the
  one decoded and that has no requester yet.
\<close>

definition decodetrack :: "string \<Rightarrow> client \<Rightarrow> ref \<times> client" where
  "decodetrack h s =
     (next_ref s,
      s\<lparr>store := (store s)(next_ref s := \<lparr>track = h, requester = None\<rparr>),
        next_ref := Suc (next_ref s)\<rparr>)"

text \<open>Inbound frames after JSON decoding. \<open>pyload.get("track")\<close> may be missing, the
  guild id is \<open>int(pyload["guildId"])\<close>.\<close>

datatype event_body =
    TrackStart
  | TrackEnd string
  | TrackException string string string string
  | TrackStuck int
  | WebSocketClosed int string bool
  | UnknownType string

datatype payload =
    StatsPayload Info
  | PlayerUpdatePayload string int "int option" bool
  | EventPayload "string option" int event_body
  | OtherPayload string

fun handle_event :: "event_body \<Rightarrow> ref \<Rightarrow> int \<Rightarrow> Node option \<Rightarrow> client \<Rightarrow> retval outcome" where
  "handle_event TrackStart tr g node s = (Inr RNone, emit (TrackStartEvent tr g) s)"
| "handle_event (TrackEnd reason) tr g node s =
     (let s1 = emit (TrackEndEvent tr g reason) s in
      case node of
        None \<Rightarrow> (Inr RNone, s1)
      | Some n \<Rightarrow>
          if queue n = [] then (Inr RNone, s1)
          else if repeat n
            then play g tr (requester (store s1 (queue n ! 0))) True s1
          else
            let n1 = n\<lparr>queue := tl (queue n)\<rparr>;
                s2 = set_guild_node g n1 s1
            in if length (queue n1) \<noteq> 0
                 then play g (queue n1 ! 0) (requester (store s2 (queue n1 ! 0))) True s2
               else (Inr RNone, s2))"
| "handle_event (TrackException exc msg sev cause) tr g node s =
     (Inr RNone, emit (TrackExceptionEvent tr g exc msg sev cause) s)"
| "handle_event (TrackStuck ms) tr g node s = (Inr RNone, emit (TrackStuckEvent tr g ms) s)"
| "handle_event (WebSocketClosed code reason by_remote) tr g node s =
     (Inr RNone, emit (WebSocketClosedEvent tr g code reason by_remote) s)"
| "handle_event (UnknownType ty) tr g node s = (Inr RNone, s)"

fun callback :: "payload \<Rightarrow> client \<Rightarrow> retval outcome" where
  "callback (StatsPayload i) s = (Inr RNone, s\<lparr>info := Some i\<rparr>)"
| "callback (PlayerUpdatePayload gid time pos conn) s =
     (Inr RNone, emit (PlayerUpdate gid time pos conn) s)"
| "callback (EventPayload tr g body) s =
     (case tr of
        None \<Rightarrow> (Inr RNone, s)
      | Some h \<Rightarrow>
          if h = [] then (Inr RNone, s)
          else
            let (r, s1) = decodetrack h s;
                node = get_guild_node g s1
            in handle_event body r g node s1)"
| "callback (OtherPayload op) s = (Inr RNone, s)"

section \<open>Dispatch over the per-session commands\<close>

text \<open>The commands that take a guild id, as one type, so that a property of every
  command is one statement. \<open>run\<close> only calls the operation named.\<close>

datatype command =
    Play ref "int option" bool
  | Stop
  | Skip
  | Pause bool
  | Seek int
  | SetVolume int
  | SetRepeat bool
  | ApplyFilters "(string \<times> string) list"
  | Shuffle "nat list"
  | Destroy
  | VoiceUpdate string string string "int option"

fun run :: "command \<Rightarrow> int \<Rightarrow> client \<Rightarrow> retval outcome" where
  "run (Play t req start) g s = play g t req start s"
| "run Stop g s = stop g s"
| "run Skip g s = skip g s"
| "run (Pause stats) g s = pause g stats s"
| "run (Seek position) g s = seek g position s"
| "run (SetVolume v) g s = volume_op g v s"
| "run (SetRepeat stats) g s = repeat_op g stats s"
| "run (ApplyFilters p) g s = filters g p s"
| "run (Shuffle ds) g s = shuffle ds g s"
| "run Destroy g s = destroy g s"
| "run (VoiceUpdate sid tok ep ch) g s = voice_update g sid tok ep ch s"

section \<open>Predicates on states and strings\<close>

text \<open>The entry under key \<open>g\<close>, if any, is the Node built for \<open>g\<close>: what
  \<open>create_new_node\<close> establishes and every command keeps.\<close>

definition entry_ok :: "int \<Rightarrow> client \<Rightarrow> bool" where
  "entry_ok g s = (case nodes s g of None \<Rightarrow> True | Some n \<Rightarrow> guild_id n = g)"

text \<open>Python's \<open>old in s\<close>.\<close>

fun contains :: "string \<Rightarrow> string \<Rightarrow> bool" where
  "contains old [] = (old = [])"
| "contains old (c # cs) = (take (length old) (c # cs) = old \<or> contains old cs)"

section \<open>Concrete states\<close>

text \<open>Three decoded tracks at addresses 0, 1 and 2, and a client with one session, for
  guild 1.\<close>

definition demo_store :: "ref \<Rightarrow> Track" where
  "demo_store r =
     \<lparr>track = (if r = 0 then ''QAAA'' else if r = 1 then ''QBBB'' else if r = 2 then ''QCCC''
               else ''''),
      requester = None\<rparr>"

definition demo_node :: "ref list \<Rightarrow> bool \<Rightarrow> Node" where
  "demo_node q rep =
     \<lparr>guild_id = 1, queue = q, volume = 100, is_connected = True, repeat = rep\<rparr>"

definition demo_client :: "ref list \<Rightarrow> bool \<Rightarrow> client" where
  "demo_client q rep =
     \<lparr>nodes = [1 \<mapsto> demo_node q rep], store = demo_store, next_ref = 3, info = None,
      sent = [], emitted = []\<rparr>"

text \<open>The same client with an empty registry.\<close>

definition client0 :: client where
  "client0 = \<lparr>nodes = Map.empty, store = demo_store, next_ref = 3, info = None,
              sent = [], emitted = []\<rparr>"

text \<open>Two sessions, guilds 1 and 2.\<close>

definition two_guilds :: client where
  "two_guilds =
     \<lparr>nodes = [1 \<mapsto> demo_node [0] False,
               2 \<mapsto> \<lparr>guild_id = 2, queue = [1, 2], volume = 40, is_connected = True,
                       repeat = True\<rparr>],
      store = demo_store, next_ref = 3, info = None, sent = [], emitted = []\<rparr>"

text \<open>A registry in which a caller has stored the Node of guild 1 under key 5 as well,
  with the public \<open>set_guild_node\<close>.\<close>

definition mismatched :: client where
  "mismatched = set_guild_node 5 (demo_node [] False) (demo_client [] False)"

text \<open>The queue of a session as a caller reads it: the Track objects behind the
  references.\<close>

definition queue_tracks :: "int \<Rightarrow> client \<Rightarrow> Track list option" where
  "queue_tracks g s = map_option (\<lambda>n. map (store s) (queue n)) (nodes s g)"

section \<open>Enqueueing a track\<close>

text \<open>
  C1. For a session that exists, \<open>play\<close> without the force flag returns normally, writes
  the requester into the Track object, appends the track to the tail of the session's
  queue and stores the node back; it sends a play frame for the track exactly when the
  queue has length 1 after the append. When the queue already held a track, no frame is
  sent.
\<close>

theorem play_enqueue:
  assumes "nodes s g = Some node"
  shows "fst (play g t req False s) = Inr RNone \<and>
         nodes (snd (play g t req False s)) =
           (nodes s)(g \<mapsto> node\<lparr>queue := queue node @ [t]\<rparr>) \<and>
         store (snd (play g t req False s)) =
           (store s)(t := (store s t)\<lparr>requester := req\<rparr>) \<and>
         sent (snd (play g t req False s)) =
           (if length (queue node @ [t]) = 1
            then sent s @ [PlayFrame g (track (store s t))] else sent s) \<and>
         (1 \<le> length (queue node) \<longrightarrow> sent (snd (play g t req False s)) = sent s)"
  using assms by (simp add: play_def get_guild_node_def set_guild_node_def send_def Let_def)

theorem play_enqueue_witness:
  "sent (snd (play 1 0 (Some 7) False (demo_client [] False))) = [PlayFrame 1 ''QAAA''] \<and>
   nodes (snd (play 1 0 (Some 7) False (demo_client [] False))) 1
     = Some (demo_node [0] False) \<and>
   sent (snd (play 1 1 (Some 7) False (demo_client [0] False))) = [] \<and>
   nodes (snd (play 1 1 (Some 7) False (demo_client [0] False))) 1
     = Some (demo_node [0, 1] False)"
proof -
  have a: "nodes (demo_client [] False) 1 = Some (demo_node [] False)"
    by (simp add: demo_client_def)
  have b: "nodes (demo_client [0] False) 1 = Some (demo_node [0] False)"
    by (simp add: demo_client_def)
  show ?thesis
    using play_enqueue [OF a, of 0 "Some 7"] play_enqueue [OF b, of 1 "Some 7"]
    by (simp add: demo_client_def demo_node_def demo_store_def)
qed

section \<open>Volume\<close>

text \<open>
  C5. A volume below 0 or above 1000 raises \<open>VolumeError\<close> whatever the registry holds,
  with the client unchanged (no frame, no mutation). For a session that exists, a volume
  from 0 to 1000 (0 and 1000 included) returns normally, stores the volume on the
  session and sends exactly one volume frame.
\<close>

theorem volume_range:
  "(v < 0 \<or> 1000 < v \<longrightarrow> volume_op g v s = (Inl (VolumeError g), s)) \<and>
   (0 \<le> v \<and> v \<le> 1000 \<and> nodes s g = Some node \<longrightarrow>
      volume_op g v s =
        (Inr RNone, s\<lparr>nodes := (nodes s)(g \<mapsto> node\<lparr>volume := v\<rparr>),
                       sent := sent s @ [VolumeFrame g v]\<rparr>))"
  by (auto simp: volume_op_def get_guild_node_def set_guild_node_def send_def)

theorem volume_range_witness:
  "volume_op 1 (- 1) (demo_client [] False) = (Inl (VolumeError 1), demo_client [] False) \<and>
   volume_op 1 1001 client0 = (Inl (VolumeError 1), client0) \<and>
   volume_op 1 0 (demo_client [] False) =
     (Inr RNone, (demo_client [] False)
        \<lparr>nodes := [1 \<mapsto> (demo_node [] False)\<lparr>volume := 0\<rparr>], sent := [VolumeFrame 1 0]\<rparr>) \<and>
   volume_op 1 1000 (demo_client [] False) =
     (Inr RNone, (demo_client [] False)
        \<lparr>nodes := [1 \<mapsto> (demo_node [] False)\<lparr>volume := 1000\<rparr>],
          sent := [VolumeFrame 1 1000]\<rparr>)"
proof -
  have a: "nodes (demo_client [] False) 1 = Some (demo_node [] False)"
    by (simp add: demo_client_def)
  show ?thesis
    using volume_range [of "- 1" 1 "demo_client [] False" "demo_node [] False"]
      volume_range [of 1001 1 client0 "demo_node [] False"]
      volume_range [of 0 1 "demo_client [] False" "demo_node [] False"]
      volume_range [of 1000 1 "demo_client [] False" "demo_node [] False"] a
    by (simp add: demo_client_def)
qed

section \<open>Stop\<close>

text \<open>
  C6. For a session that exists, \<open>stop\<close> with an empty queue raises \<open>NodeError\<close> (the
  "not found" kind) and leaves the client as it was, no frame sent; with a non-empty
  queue it empties the queue, stores the node back, sends exactly one stop frame and
  returns the node.
\<close>

theorem stop_queue:
  assumes "nodes s g = Some node"
  shows "(queue node = [] \<longrightarrow> stop g s = (Inl (NodeError g), s)) \<and>
         (queue node \<noteq> [] \<longrightarrow>
            stop g s =
              (Inr (RNode (node\<lparr>queue := []\<rparr>)),
               s\<lparr>nodes := (nodes s)(g \<mapsto> node\<lparr>queue := []\<rparr>),
                 sent := sent s @ [StopFrame g]\<rparr>))"
  using assms by (simp add: stop_def get_guild_node_def set_guild_node_def send_def Let_def)

theorem stop_queue_witness:
  "stop 1 (demo_client [] False) = (Inl (NodeError 1), demo_client [] False) \<and>
   stop 1 (demo_client [0, 1] False) =
     (Inr (RNode (demo_node [] False)),
      (demo_client [0, 1] False)\<lparr>nodes := [1 \<mapsto> demo_node [] False],
                                   sent := [StopFrame 1]\<rparr>)"
proof -
  have a: "nodes (demo_client [] False) 1 = Some (demo_node [] False)"
    by (simp add: demo_client_def)
  have b: "nodes (demo_client [0, 1] False) 1 = Some (demo_node [0, 1] False)"
    by (simp add: demo_client_def)
  show ?thesis
    using stop_queue [OF a] stop_queue [OF b]
    by (simp add: demo_client_def demo_node_def)
qed

section \<open>Shuffle\<close>

text \<open>One round of the pool algorithm keeps the multiset: the element taken out plus the
  shrunk pool is the pool.\<close>

lemma swap_out_mset:
  assumes "j < length pool"
  shows "add_mset (pool ! j) (mset (butlast (pool[j := last pool]))) = mset pool"
proof -
  let ?xs = "pool[j := last pool]"
  from assms have ne: "pool \<noteq> []" by auto
  hence xs_ne: "?xs \<noteq> []" by simp
  have split: "mset ?xs = add_mset (last ?xs) (mset (butlast ?xs))"
  proof -
    have "?xs = butlast ?xs @ [last ?xs]" using xs_ne by simp
    hence "mset ?xs = mset (butlast ?xs @ [last ?xs])" by simp
    thus ?thesis by simp
  qed
  have upd: "mset ?xs = add_mset (last pool) (mset pool - {#pool ! j#})"
    using assms by (simp add: mset_update)
  have last_xs: "last ?xs = last pool"
    using ne assms by (cases "j = length pool - 1") (simp_all add: last_conv_nth)
  from split upd last_xs have "mset (butlast ?xs) = mset pool - {#pool ! j#}" by simp
  thus ?thesis using assms by simp
qed

lemma sample_loop_mset:
  "length pool = n \<Longrightarrow> mset (sample_loop n ds pool) = mset pool"
proof (induction n arbitrary: ds pool)
  case 0
  then show ?case by simp
next
  case (Suc n)
  then have ne: "pool \<noteq> []" by auto
  define j where "j = (case ds of [] \<Rightarrow> 0 | d # _ \<Rightarrow> d mod length pool)"
  have jl: "j < length pool" using ne by (auto simp: j_def split: list.splits)
  have len: "length (butlast (pool[j := last pool])) = n" using Suc.prems by simp
  have "sample_loop (Suc n) ds pool =
          pool ! j # sample_loop n (tl ds) (butlast (pool[j := last pool]))"
    using ne by (simp add: j_def Let_def)
  then show ?case using Suc.IH [OF len] swap_out_mset [OF jl] by simp
qed

lemma random_sample_mset: "mset (random_sample ds xs) = mset xs"
  by (simp add: random_sample_def sample_loop_mset)

lemma random_sample_length: "length (random_sample ds xs) = length xs"
  using random_sample_mset [of ds xs] by (metis size_mset)

text \<open>
  C9. For a session that exists and whatever the generator draws: with an empty queue
  \<open>shuffle\<close> returns the empty list and changes nothing; with a non-empty queue it
  returns the node with a new queue of the same length, whose element at index 0 is the
  old one and whose remaining elements are a permutation (the same multiset) of the old
  remaining elements, and that node is stored in the registry.
\<close>

theorem shuffle_keeps_head:
  assumes "nodes s g = Some node"
  shows "(queue node = [] \<longrightarrow> shuffle ds g s = (Inr (RList []), s)) \<and>
         (queue node \<noteq> [] \<longrightarrow>
            (\<exists>q. shuffle ds g s =
                   (Inr (RNode (node\<lparr>queue := q\<rparr>)),
                    s\<lparr>nodes := (nodes s)(g \<mapsto> node\<lparr>queue := q\<rparr>)\<rparr>) \<and>
                 length q = length (queue node) \<and>
                 q ! 0 = queue node ! 0 \<and>
                 mset (tl q) = mset (tl (queue node))))"
proof (cases "queue node")
  case Nil
  with assms show ?thesis by (simp add: shuffle_def get_guild_node_def)
next
  case (Cons a rest)
  let ?q = "a # random_sample ds rest"
  have "shuffle ds g s =
          (Inr (RNode (node\<lparr>queue := ?q\<rparr>)),
           s\<lparr>nodes := (nodes s)(g \<mapsto> node\<lparr>queue := ?q\<rparr>)\<rparr>)"
    using assms Cons by (simp add: shuffle_def get_guild_node_def set_guild_node_def Let_def)
  moreover have "length ?q = length (queue node)"
    using Cons by (simp add: random_sample_length)
  moreover have "?q ! 0 = queue node ! 0" using Cons by simp
  moreover have "mset (tl ?q) = mset (tl (queue node))"
    using Cons by (simp add: random_sample_mset)
  ultimately have "\<exists>q. shuffle ds g s =
                   (Inr (RNode (node\<lparr>queue := q\<rparr>)),
                    s\<lparr>nodes := (nodes s)(g \<mapsto> node\<lparr>queue := q\<rparr>)\<rparr>) \<and>
                 length q = length (queue node) \<and>
                 q ! 0 = queue node ! 0 \<and>
                 mset (tl q) = mset (tl (queue node))"
    by (intro exI [of _ ?q] conjI)
  thus ?thesis using Cons by simp
qed

theorem shuffle_keeps_head_witness:
  "shuffle [1] 1 (demo_client [] False) = (Inr (RList []), demo_client [] False) \<and>
   (\<exists>q. shuffle [1] 1 (demo_client [0, 1, 2] False) =
          (Inr (RNode ((demo_node [0, 1, 2] False)\<lparr>queue := q\<rparr>)),
           (demo_client [0, 1, 2] False)
             \<lparr>nodes := (nodes (demo_client [0, 1, 2] False))
                         (1 \<mapsto> (demo_node [0, 1, 2] False)\<lparr>queue := q\<rparr>)\<rparr>) \<and>
        length q = length (queue (demo_node [0, 1, 2] False)) \<and>
        q ! 0 = queue (demo_node [0, 1, 2] False) ! 0 \<and>
        mset (tl q) = mset (tl (queue (demo_node [0, 1, 2] False))))"
proof -
  have a: "nodes (demo_client [] False) 1 = Some (demo_node [] False)"
    by (simp add: demo_client_def)
  have b: "nodes (demo_client [0, 1, 2] False) 1 = Some (demo_node [0, 1, 2] False)"
    by (simp add: demo_client_def)
  have c: "queue (demo_node [] False) = []" by (simp add: demo_node_def)
  have d: "queue (demo_node [0, 1, 2] False) \<noteq> []" by (simp add: demo_node_def)
  show ?thesis
    using shuffle_keeps_head [OF a, of "[1]"] shuffle_keeps_head [OF b, of "[1]"] c d
    by simp
qed

text \<open>For these draws the generator swaps the two tracks behind the head.\<close>

lemma shuffle_example:
  "fst (shuffle [1] 1 (demo_client [0, 1, 2] False)) = Inr (RNode (demo_node [0, 2, 1] False))"
  by (simp add: shuffle_def get_guild_node_def set_guild_node_def demo_client_def
      demo_node_def random_sample_def Let_def)

section \<open>Track end\<close>

text \<open>
  C2. For a TrackEnd frame that carries a track, for a session that exists, has
  \<open>repeat\<close> set and a non-empty queue: the handler publishes the TrackEnd event, sends
  one forced play frame for the track the frame names (the track that ended) and leaves
  the registry, so the queue and its length, as it was. That frame is for the head of
  the queue whenever the head is the track that ended.
\<close>

theorem track_end_repeat:
  assumes "nodes s g = Some n" and "repeat n" and "queue n \<noteq> []" and "h \<noteq> []"
  shows "fst (callback (EventPayload (Some h) g (TrackEnd reason)) s) = Inr RNone \<and>
         nodes (snd (callback (EventPayload (Some h) g (TrackEnd reason)) s)) = nodes s \<and>
         sent (snd (callback (EventPayload (Some h) g (TrackEnd reason)) s)) =
           sent s @ [PlayFrame g h] \<and>
         emitted (snd (callback (EventPayload (Some h) g (TrackEnd reason)) s)) =
           emitted s @ [TrackEndEvent (next_ref s) g reason] \<and>
         (track (store s (queue n ! 0)) = h \<longrightarrow>
            sent (snd (callback (EventPayload (Some h) g (TrackEnd reason)) s)) =
              sent s @ [PlayFrame g (track (store s (queue n ! 0)))])"
  using assms
  by (simp add: decodetrack_def get_guild_node_def emit_def play_def send_def Let_def)

theorem track_end_repeat_witness:
  "sent (snd (callback (EventPayload (Some ''QAAA'') 1 (TrackEnd ''FINISHED''))
                (demo_client [0, 1] True))) = [PlayFrame 1 ''QAAA''] \<and>
   nodes (snd (callback (EventPayload (Some ''QAAA'') 1 (TrackEnd ''FINISHED''))
                 (demo_client [0, 1] True))) 1 = Some (demo_node [0, 1] True)"
proof -
  have a: "nodes (demo_client [0, 1] True) 1 = Some (demo_node [0, 1] True)"
    by (simp add: demo_client_def)
  have b: "repeat (demo_node [0, 1] True)" by (simp add: demo_node_def)
  have c: "queue (demo_node [0, 1] True) \<noteq> []" by (simp add: demo_node_def)
  have d: "''QAAA'' \<noteq> []" by simp
  show ?thesis
    using track_end_repeat [OF a b c d, of "''FINISHED''"]
    by (simp add: demo_client_def)
qed

text \<open>The head of the queue is the track \<open>QBBB\<close>, the frame reports the end of
  \<open>QAAA\<close> (a track stopped before \<open>QBBB\<close> was enqueued): the forced play is for
  \<open>QAAA\<close>, not for the head.\<close>

theorem track_end_repeat_counterexample:
  "sent (snd (callback (EventPayload (Some ''QAAA'') 1 (TrackEnd ''STOPPED''))
                (demo_client [1, 2] True)))
     \<noteq> sent (demo_client [1, 2] True)
         @ [PlayFrame 1 (track (store (demo_client [1, 2] True)
                                  (hd (queue (demo_node [1, 2] True)))))]"
  by (simp add: demo_client_def demo_node_def demo_store_def decodetrack_def
      get_guild_node_def emit_def play_def send_def)



section \<open>The closed voice socket\<close>

text \<open>
  C7. A WebSocketClosedEvent frame as the node sends it (guild id, code, reason and
  byRemote, no track) reaches the guard \<open>if not pyload.get("track"): return\<close> first:
  nothing is published. The registry is left as it was.
\<close>

theorem closed_event_dropped:
  "callback (EventPayload None 1 (WebSocketClosed 4006 ''Session invalid'' True))
     (demo_client [0] False)
     = (Inr RNone, demo_client [0] False)"
  by simp

text \<open>With a non-empty track field the event is published and the registry kept.\<close>

lemma closed_event_with_track:
  assumes "h \<noteq> []"
  shows "emitted (snd (callback (EventPayload (Some h) g (WebSocketClosed code reason br)) s))
           = emitted s @ [WebSocketClosedEvent (next_ref s) g code reason br] \<and>
         nodes (snd (callback (EventPayload (Some h) g (WebSocketClosed code reason br)) s))
           = nodes s"
  using assms by (simp add: decodetrack_def emit_def get_guild_node_def)

lemma closed_event_keeps_registry:
  "nodes (snd (callback (EventPayload tr g (WebSocketClosed code reason br)) s)) = nodes s"
  by (cases tr) (simp_all add: decodetrack_def emit_def get_guild_node_def)

section \<open>Commands on a session that is absent\<close>

text \<open>Eight commands guard the lookup and raise \<open>NodeError\<close> with the client
  unchanged.\<close>

lemma absent_guarded:
  assumes "nodes s g = None"
  shows "play g t req start s = (Inl (NodeError g), s)"
    and "skip g s = (Inl (NodeError g), s)"
    and "pause g stats s = (Inl (NodeError g), s)"
    and "seek g position s = (Inl (NodeError g), s)"
    and "0 \<le> v \<Longrightarrow> v \<le> 1000 \<Longrightarrow> volume_op g v s = (Inl (NodeError g), s)"
    and "filters g p s = (Inl (NodeError g), s)"
    and "shuffle ds g s = (Inl (NodeError g), s)"
    and "destroy g s = (Inl (NodeError g), s)"
  using assms
  by (simp_all add: play_def skip_def pause_def seek_def volume_op_def filters_def shuffle_def
      destroy_def get_guild_node_def)

text \<open>\<open>stop\<close> and \<open>repeat\<close> read an attribute of the lookup's result unguarded.\<close>

lemma absent_unguarded:
  assumes "nodes s g = None"
  shows "stop g s = (Inl AttributeError, s)"
    and "repeat_op g stats s = (Inl AttributeError, s)"
  using assms by (simp_all add: stop_def repeat_op_def get_guild_node_def)

text \<open>
  C4. On a registry without guild 1, \<open>stop\<close> and \<open>repeat\<close> end in \<open>AttributeError\<close>, not
  in \<open>NodeError\<close>; the client is unchanged.
\<close>

theorem stop_repeat_absent:
  "stop 1 client0 = (Inl AttributeError, client0) \<and>
   repeat_op 1 True client0 = (Inl AttributeError, client0)"
  by (simp add: stop_def repeat_op_def get_guild_node_def client0_def)

section \<open>Binding a voice session\<close>

lemma str_replace_absent: "\<not> contains old s \<Longrightarrow> str_replace old new s = s"
proof (induction s)
  case Nil
  then show ?case by simp
next
  case (Cons c cs)
  then have "old \<noteq> []" and "take (length old) (c # cs) \<noteq> old" and "\<not> contains old cs"
    by auto
  with Cons.IH show ?case by (subst str_replace.simps) simp
qed

lemma str_replace_prefix:
  "old \<noteq> [] \<Longrightarrow> str_replace old new (old @ s) = new @ str_replace old new s"
  by (subst str_replace.simps) simp

text \<open>
  C8. \<open>voice_update\<close> with no channel id, or with channel id 0: when the session is
  absent the call raises \<open>NodeError\<close> and changes nothing; when the session is present
  (stored under its own guild id) it is removed and one destroy frame is sent; no
  voiceUpdate frame in either case. With a channel id other than 0, exactly one
  voiceUpdate frame is sent, carrying the endpoint with every \<open>wss://\<close> removed, and
  afterwards the registry holds a fresh session for the guild: empty queue, volume 100,
  connected. An endpoint \<open>wss://host\<close> whose host has no further \<open>wss://\<close> is sent as
  \<open>host\<close>.
\<close>

theorem voice_update_binding:
  "(channel_id = None \<or> channel_id = Some 0 \<longrightarrow>
      (nodes s g = None \<longrightarrow>
         voice_update g sid tok ep channel_id s = (Inl (NodeError g), s)) \<and>
      (nodes s g = Some n \<and> guild_id n = g \<longrightarrow>
         voice_update g sid tok ep channel_id s =
           (Inr RNone, s\<lparr>nodes := (nodes s)(g := None),
                          sent := sent s @ [DestroyFrame g]\<rparr>))) \<and>
   (channel_id = Some c \<and> c \<noteq> 0 \<longrightarrow>
      voice_update g sid tok ep channel_id s =
        (Inr RNone,
         s\<lparr>sent := sent s @ [VoiceUpdateFrame g sid tok (str_replace ''wss://'' '''' ep)],
           nodes := (nodes s)(g \<mapsto> \<lparr>guild_id = g, queue = [], volume = 100,
                                     is_connected = True, repeat = False\<rparr>)\<rparr>)) \<and>
   (\<not> contains ''wss://'' host \<longrightarrow>
      str_replace ''wss://'' '''' (''wss://'' @ host) = host)"
proof -
  have "\<not> contains ''wss://'' host \<Longrightarrow>
          str_replace ''wss://'' '''' (''wss://'' @ host) = host"
    using str_replace_prefix [of "''wss://''" "''''" host]
      str_replace_absent [of "''wss://''" host "''''"]
    by simp
  thus ?thesis
    by (auto simp: voice_update_def destroy_def remove_guild_node_def get_guild_node_def
        create_new_node_def send_def Let_def)
qed

theorem voice_update_binding_witness:
  "voice_update 1 ''sess'' ''tok'' ''wss://eu.example:443'' (Some 0) client0
     = (Inl (NodeError 1), client0) \<and>
   voice_update 1 ''sess'' ''tok'' ''wss://eu.example:443'' None (demo_client [0] False)
     = (Inr RNone, (demo_client [0] False)\<lparr>nodes := Map.empty, sent := [DestroyFrame 1]\<rparr>) \<and>
   voice_update 1 ''sess'' ''tok'' ''wss://eu.example:443'' (Some 55) client0
     = (Inr RNone,
        client0\<lparr>sent := [VoiceUpdateFrame 1 ''sess'' ''tok'' ''eu.example:443''],
                nodes := [1 \<mapsto> demo_node [] False]\<rparr>)"
proof -
  have a: "nodes client0 1 = None" by (simp add: client0_def)
  have b: "nodes (demo_client [0] False) 1 = Some (demo_node [0] False)
           \<and> guild_id (demo_node [0] False) = 1"
    by (simp add: demo_client_def demo_node_def)
  have c: "\<not> contains ''wss://'' ''eu.example:443''" by simp
  show ?thesis
    using voice_update_binding [of "Some 0" client0 1 "''sess''" "''tok''"
        "''wss://eu.example:443''" "demo_node [0] False" 0 "''eu.example:443''"]
      voice_update_binding [of None "demo_client [0] False" 1 "''sess''" "''tok''"
        "''wss://eu.example:443''" "demo_node [0] False" 0 "''eu.example:443''"]
      voice_update_binding [of "Some 55" client0 1 "''sess''" "''tok''"
        "''wss://eu.example:443''" "demo_node [0] False" 55 "''eu.example:443''"]
      a b c
    by (simp add: demo_client_def demo_node_def client0_def)
qed

text \<open>No channel id and no session for the guild: the call raises, it is not a no-op.\<close>

theorem voice_update_counterexample:
  "voice_update 1 ''sess'' ''tok'' ''wss://eu.example:443'' None client0
     = (Inl (NodeError 1), client0)"
  by (simp add: voice_update_def destroy_def get_guild_node_def client0_def)

section \<open>Other sessions\<close>


text \<open>Every command keeps every entry under its own key, so the hypothesis of the next
  theorem holds in every state reached from an empty registry.\<close>

lemma run_entry_ok:
  assumes "\<forall>k. entry_ok k s"
  shows "entry_ok k (snd (run c g s))"
  using assms [rule_format, of g] assms [rule_format, of k]
  by (cases c)
     (auto simp: entry_ok_def play_def stop_def skip_def pause_def seek_def volume_op_def
        repeat_op_def filters_def shuffle_def destroy_def voice_update_def
        remove_guild_node_def get_guild_node_def set_guild_node_def create_new_node_def
        send_def Let_def split: option.splits if_splits)

lemma callback_entry_ok:
  assumes "\<forall>k. entry_ok k s"
  shows "entry_ok k (snd (callback p s))"
proof (cases p)
  case (EventPayload tr g body)
  show ?thesis
    using assms [rule_format, of g] assms [rule_format, of k] EventPayload
    by (cases body; cases tr)
       (auto simp: entry_ok_def decodetrack_def emit_def play_def send_def
          get_guild_node_def set_guild_node_def Let_def split: option.splits if_splits)
qed (use assms [rule_format, of k] in \<open>auto simp: entry_ok_def emit_def\<close>)




text \<open>What each of the two calls does, spelled out.\<close>

lemma shared_track_requester:
  "map requester (the (queue_tracks 2 two_guilds)) = [None, None] \<and>
   map requester (the (queue_tracks 2 (snd (run (Play 1 (Some 9) False) 1 two_guilds))))
     = [Some 9, None] \<and>
   fst (run (Play 1 (Some 9) False) 1 two_guilds) = Inr RNone"
  by (simp add: queue_tracks_def two_guilds_def demo_node_def demo_store_def play_def
      get_guild_node_def set_guild_node_def send_def Let_def)

lemma destroy_mismatched:
  "run Destroy 5 mismatched =
     (Inr RNone,
      mismatched\<lparr>nodes := [5 \<mapsto> demo_node [] False], sent := [DestroyFrame 5]\<rparr>)"
  by (simp add: mismatched_def demo_client_def demo_node_def destroy_def
      remove_guild_node_def get_guild_node_def set_guild_node_def send_def)

end
